theory Spec2Isabelle
  imports Complex_Main "HOL-Library.Char_ord" "HOL-Library.List_Lexorder" "HOL-Library.Sublist"
    "HOL-Library.Multiset"
begin

section \<open>The aggregation engine of \<^verbatim>\<open>split_data.py\<close>\<close>

text \<open>
  The development embeds the functions of \<^verbatim>\<open>src/split_data.py\<close> and the row passes of
  \<^verbatim>\<open>src/bench/split-data-stats-map-bench.py\<close>.

  Conventions of the embedding.
  \<^item> A Python \<^verbatim>\<open>float\<close> is a \<^typ>\<open>real\<close>: arithmetic is exact, rounding, overflow, infinities
    and NaN are not modelled.
  \<^item> A Python \<^verbatim>\<open>str\<close> is a \<^typ>\<open>string\<close> compared lexicographically by character code, as
    Python compares strings.
  \<^item> A JSON object with a fixed set of keys is a record; a key that is absent and a key
    whose value is \<^verbatim>\<open>null\<close> are both \<^term>\<open>None\<close> (every read in the source is a
    \<^verbatim>\<open>.get\<close>, which does not tell them apart). Dates, sources, salary terms, organisations
    and titles are strings when present, as the input contract has them; a job object is
    taken to have at least one key.
  \<^item> A dictionary is a map; the input dictionary, whose iteration order the passes follow,
    is an association list with distinct keys.
\<close>

subsection \<open>Input data\<close>

text \<open>A scalar JSON value, as \<^verbatim>\<open>parse_float\<close> may receive it.\<close>

datatype jval = JNull | JBool bool | JNum real | JStr string

record job =
  annual_salary_rate :: jval
  salary_term :: "string option"
  appt_percent :: jval
  job_orgn :: "string option"
  job_title :: "string option"

record snapshot =
  snap_date :: "string option"
  snap_source :: "string option"
  snap_jobs :: "job list"

record person =
  timeline :: "snapshot list"

subsection \<open>Python primitives\<close>

text \<open>Truthiness of an optional string: \<^verbatim>\<open>None\<close> and \<^verbatim>\<open>""\<close> are false.\<close>

fun truthy :: "string option \<Rightarrow> bool" where
  "truthy None = False"
| "truthy (Some s) = (s \<noteq> [])"

text \<open>\<^verbatim>\<open>x or default\<close> on an optional string.\<close>

fun str_or :: "string option \<Rightarrow> string \<Rightarrow> string" where
  "str_or None d = d"
| "str_or (Some s) d = (if s = [] then d else s)"

text \<open>\<^verbatim>\<open>x or 0.0\<close> on an optional float: \<^verbatim>\<open>None\<close> and \<^verbatim>\<open>0.0\<close> both give \<^verbatim>\<open>0.0\<close>.\<close>

fun float_or_zero :: "real option \<Rightarrow> real" where
  "float_or_zero None = 0"
| "float_or_zero (Some r) = r"

text \<open>\<^verbatim>\<open>str.lower\<close> on the ASCII letters.\<close>

definition lower_char :: "char \<Rightarrow> char" where
  "lower_char c =
     (case map_of (zip ''ABCDEFGHIJKLMNOPQRSTUVWXYZ'' ''abcdefghijklmnopqrstuvwxyz'') c of
        None \<Rightarrow> c
      | Some d \<Rightarrow> d)"

definition lower :: "string \<Rightarrow> string" where
  "lower s = map lower_char s"

text \<open>\<^verbatim>\<open>str.strip\<close>: the ASCII white space of Python (including the separators 0x1C to 0x1F).\<close>

definition is_space :: "char \<Rightarrow> bool" where
  "is_space c = (c \<in> set [CHR 0x20, CHR 0x09, CHR 0x0A, CHR 0x0B, CHR 0x0C, CHR 0x0D,
                          CHR 0x1C, CHR 0x1D, CHR 0x1E, CHR 0x1F])"

definition strip :: "string \<Rightarrow> string" where
  "strip s = rev (dropWhile is_space (rev (dropWhile is_space s)))"

text \<open>\<^verbatim>\<open>pat in s\<close> on strings: \<^term>\<open>pat\<close> occurs as a contiguous substring.\<close>

fun contains :: "string \<Rightarrow> string \<Rightarrow> bool" where
  "contains pat [] = (pat = [])"
| "contains pat (c # cs) = (prefix pat (c # cs) \<or> contains pat cs)"

subsection \<open>\<^verbatim>\<open>parse_float\<close>\<close>

definition is_digit :: "char \<Rightarrow> bool" where
  "is_digit c = (CHR ''0'' \<le> c \<and> c \<le> CHR ''9'')"

text \<open>The substitution \<^verbatim>\<open>_NON_NUMERIC_RE.sub("", s)\<close> with the pattern \<^verbatim>\<open>[^0-9.-]+\<close>.\<close>

definition numeric_char :: "char \<Rightarrow> bool" where
  "numeric_char c = (is_digit c \<or> c = CHR ''.'' \<or> c = CHR ''-'')"

definition strip_non_numeric :: "string \<Rightarrow> string" where
  "strip_non_numeric s = filter numeric_char s"

definition digit_val :: "char \<Rightarrow> nat" where
  "digit_val c = of_char c - 48"

definition digits_val :: "string \<Rightarrow> nat" where
  "digits_val s = foldl (\<lambda>n c. 10 * n + digit_val c) 0 s"

text \<open>
  Python's \<^verbatim>\<open>float(s)\<close> on a string of digits, dots and minus signs (all that is left
  after the substitution): an optional leading minus, then digits with at most one dot
  and at least one digit. Anything else raises \<^verbatim>\<open>ValueError\<close>, here \<^term>\<open>None\<close>.
\<close>

definition float_of_unsigned :: "string \<Rightarrow> real option" where
  "float_of_unsigned s =
     (let ip = takeWhile is_digit s; rest = dropWhile is_digit s in
      case rest of
        [] \<Rightarrow> if ip = [] then None else Some (real (digits_val ip))
      | c # fp \<Rightarrow>
          if c = CHR ''.'' \<and> list_all is_digit fp \<and> (ip \<noteq> [] \<or> fp \<noteq> [])
          then Some (real (digits_val ip) + real (digits_val fp) / 10 ^ length fp)
          else None)"

fun float_of_str :: "string \<Rightarrow> real option" where
  "float_of_str [] = None"
| "float_of_str (c # cs) =
     (if c = CHR ''-'' then map_option uminus (float_of_unsigned cs)
      else float_of_unsigned (c # cs))"

fun parse_float :: "jval \<Rightarrow> real option" where
  "parse_float JNull = None"
| "parse_float (JNum r) = Some r"
| "parse_float (JBool b) = Some (if b then 1 else 0)"
| "parse_float (JStr s) =
     (let cleaned = strip_non_numeric s in
      if cleaned = [] then None else float_of_str cleaned)"

subsection \<open>PayCalculator\<close>

definition calc_job_rate_and_missing :: "job \<Rightarrow> real \<times> real \<times> bool" where
  "calc_job_rate_and_missing j =
     (let rate_num = parse_float (annual_salary_rate j);
          term = strip (str_or (salary_term j) []);
          pct = float_or_zero (parse_float (appt_percent j))
      in case rate_num of
           Some r \<Rightarrow>
             if term = ''mo'' \<and> r > 0 \<and> r \<le> 12 then (0, pct, True) else (r, pct, False)
         | None \<Rightarrow> (0, pct, False))"

definition pay_step :: "job \<Rightarrow> real \<Rightarrow> real" where
  "pay_step j tot =
     (case calc_job_rate_and_missing j of
        (rate, pct, _) \<Rightarrow> if rate > 0 then tot + rate * (pct / 100) else tot)"

definition calculate_snapshot_pay :: "snapshot \<Rightarrow> real" where
  "calculate_snapshot_pay snap =
     (if snap_jobs snap = [] then 0 else fold pay_step (snap_jobs snap) 0)"


definition job_pct :: "job \<Rightarrow> real" where
  "job_pct j = fst (snd (calc_job_rate_and_missing j))"

definition job_missing :: "job \<Rightarrow> bool" where
  "job_missing j = snd (snd (calc_job_rate_and_missing j))"

subsection \<open>ColaEvaluator: events and date pairs\<close>

record cola_event =
  ev_label :: string
  ev_effective :: string
  ev_pct :: real

record cola_pair =
  pair_label :: string
  pair_effective :: string
  pair_pct :: real
  beforeDate :: "string option"
  afterDate :: "string option"

definition COLA_EVENTS :: "cola_event list" where
  "COLA_EVENTS =
     [\<lparr>ev_label = ''6.5% COLA'', ev_effective = ''2024-04-01'', ev_pct = 6.5\<rparr>,
      \<lparr>ev_label = ''2% COLA'', ev_effective = ''2024-11-01'', ev_pct = 2.0\<rparr>,
      \<lparr>ev_label = ''3.5% COLA'', ev_effective = ''2025-06-01'', ev_pct = 3.5\<rparr>]"

definition COLA_TOLERANCE_PCT :: real where
  "COLA_TOLERANCE_PCT = 0.4"

text \<open>The inner loop of \<^verbatim>\<open>build_cola_pairs\<close> over the dates, for one event.\<close>

fun scan_dates ::
  "string \<Rightarrow> string list \<Rightarrow> string option \<Rightarrow> string option \<Rightarrow> string option \<times> string option"
where
  "scan_dates eff [] before_date after_date = (before_date, after_date)"
| "scan_dates eff (d # ds) before_date after_date =
     scan_dates eff ds
       (if d \<le> eff then Some d else before_date)
       (if after_date = None \<and> d \<ge> eff then Some d else after_date)"

definition build_pair :: "string list \<Rightarrow> cola_event \<Rightarrow> cola_pair" where
  "build_pair dates event =
     (case scan_dates (ev_effective event) dates None None of
        (before_date, after_date) \<Rightarrow>
          \<lparr>pair_label = ev_label event, pair_effective = ev_effective event,
           pair_pct = ev_pct event, beforeDate = before_date, afterDate = after_date\<rparr>)"

definition build_cola_pairs :: "string list \<Rightarrow> cola_event list \<Rightarrow> cola_pair list" where
  "build_cola_pairs dates events = (if dates = [] then [] else map (build_pair dates) events)"

subsection \<open>TimelineWalker\<close>

text \<open>The variables of one employee that the loop over the timeline carries.\<close>

record walk_state =
  prev_is_unclass :: "bool option"
  was_excluded :: bool
  first_exclusion_date :: "string option"
  started_classified :: "bool option"
  is_unclass :: bool
  snap_by_date_pay :: "string \<rightharpoonup> real"
  total_pay :: real
  pay_missing :: bool
  is_full_time :: bool

definition init_walk :: walk_state where
  "init_walk =
     \<lparr>prev_is_unclass = None, was_excluded = False, first_exclusion_date = None,
      started_classified = None, is_unclass = False, snap_by_date_pay = Map.empty,
      total_pay = 0, pay_missing = False, is_full_time = False\<rparr>"

text \<open>\<^verbatim>\<open>"unclass" in (snap.get("Source") or "").lower()\<close>\<close>

definition is_unclass_source :: "string option \<Rightarrow> bool" where
  "is_unclass_source src = contains ''unclass'' (lower (str_or src []))"

text \<open>Lines 167 to 176: classification of the snapshot and exclusion tracking.\<close>

definition classify_step :: "snapshot \<Rightarrow> walk_state \<Rightarrow> walk_state" where
  "classify_step snap w =
     (let date = snap_date snap;
          cur = is_unclass_source (snap_source snap);
          w1 = w\<lparr>is_unclass := cur\<rparr>;
          w2 = (if started_classified w1 = None
                then w1\<lparr>started_classified := Some (\<not> cur)\<rparr> else w1)
      in if prev_is_unclass w2 = Some False \<and> cur then
           (if started_classified w2 = Some True then
              (if \<not> truthy (first_exclusion_date w2)
               then w2\<lparr>was_excluded := True, first_exclusion_date := date\<rparr>
               else w2\<lparr>was_excluded := True\<rparr>)
            else w2)
         else w2)"

text \<open>Lines 197 to 199: the pay of the snapshot, recorded under its date.\<close>

definition record_pay :: "snapshot \<Rightarrow> (string \<rightharpoonup> real) \<Rightarrow> (string \<rightharpoonup> real)" where
  "record_pay snap m =
     (case snap_date snap of
        None \<Rightarrow> m
      | Some d \<Rightarrow> if d = [] then m else m(d \<mapsto> calculate_snapshot_pay snap))"

text \<open>Lines 227 to 236: what the last snapshot alone decides.\<close>

definition last_snapshot_step :: "snapshot \<Rightarrow> walk_state \<Rightarrow> walk_state" where
  "last_snapshot_step snap w =
     w\<lparr>total_pay := calculate_snapshot_pay snap,
       pay_missing := list_ex job_missing (snap_jobs snap),
       is_full_time := list_ex (\<lambda>j. job_pct j \<ge> 100) (snap_jobs snap)\<rparr>"

definition local_step :: "bool \<Rightarrow> snapshot \<Rightarrow> walk_state \<Rightarrow> walk_state" where
  "local_step is_last snap w =
     (let w1 = classify_step snap w;
          w2 = w1\<lparr>snap_by_date_pay := record_pay snap (snap_by_date_pay w1)\<rparr>;
          w3 = (if is_last then last_snapshot_step snap w2 else w2)
      in w3\<lparr>prev_is_unclass := Some (is_unclass w3)\<rparr>)"

subsection \<open>StatsAccumulator and the peer buckets\<close>

record stats_row =
  row_date :: string
  classified :: nat
  unclassified :: nat
  payroll :: real
  payrollClassified :: real
  payrollUnclassified :: real

type_synonym stats = "string \<rightharpoonup> stats_row"

type_synonym peers = "string \<rightharpoonup> (string \<rightharpoonup> real list)"

record globals =
  snapshot_dates :: "string set"
  stats_map :: stats
  peer_buckets :: peers

definition init_globals :: globals where
  "init_globals = \<lparr>snapshot_dates = {}, stats_map = Map.empty, peer_buckets = Map.empty\<rparr>"

definition new_stats_row :: "string \<Rightarrow> stats_row" where
  "new_stats_row d =
     \<lparr>row_date = d, classified = 0, unclassified = 0, payroll = 0,
      payrollClassified = 0, payrollUnclassified = 0\<rparr>"

text \<open>Lines 203 to 218: one snapshot folded into the row of its date.\<close>

definition stats_update :: "string \<Rightarrow> bool \<Rightarrow> real \<Rightarrow> stats \<Rightarrow> stats" where
  "stats_update d unclass snap_pay sm =
     (let row = (case sm d of None \<Rightarrow> new_stats_row d | Some r \<Rightarrow> r);
          row1 = row\<lparr>payroll := payroll row + snap_pay\<rparr>
      in sm(d \<mapsto>
           (if unclass
            then row1\<lparr>unclassified := unclassified row1 + 1,
                      payrollUnclassified := payrollUnclassified row1 + snap_pay\<rparr>
            else row1\<lparr>classified := classified row1 + 1,
                      payrollClassified := payrollClassified row1 + snap_pay\<rparr>)))"

text \<open>The cohort key \<^verbatim>\<open>f"{org}||{role}"\<close> of a primary job.\<close>

definition peer_key :: "job \<Rightarrow> string" where
  "peer_key j = str_or (job_orgn j) ''Unknown'' @ ''||'' @ str_or (job_title j) ''Unknown''"

text \<open>\<^verbatim>\<open>peer_buckets[date][key].append(snap_pay)\<close> on the nested default dictionaries.\<close>

definition peers_append :: "string \<Rightarrow> string \<Rightarrow> real \<Rightarrow> peers \<Rightarrow> peers" where
  "peers_append d key snap_pay pb =
     (let inner = (case pb d of None \<Rightarrow> Map.empty | Some m \<Rightarrow> m);
          vals = (case inner key of None \<Rightarrow> [] | Some vs \<Rightarrow> vs)
      in pb(d \<mapsto> inner(key \<mapsto> vals @ [snap_pay])))"


text \<open>Lines 164 to 165 and 201 to 225: what one snapshot adds to the shared accumulators.\<close>

definition global_step :: "snapshot \<Rightarrow> globals \<Rightarrow> globals" where
  "global_step snap g =
     (case snap_date snap of
        None \<Rightarrow> g
      | Some d \<Rightarrow>
          if d = [] then g
          else
            (let snap_pay = calculate_snapshot_pay snap;
                 jobs = snap_jobs snap
             in g\<lparr>snapshot_dates := insert d (snapshot_dates g),
                   stats_map :=
                     stats_update d (is_unclass_source (snap_source snap)) snap_pay (stats_map g),
                   peer_buckets :=
                     (case jobs of
                        [] \<Rightarrow> peer_buckets g
                      | primary_job # _ \<Rightarrow>
                          peers_append d (peer_key primary_job) snap_pay (peer_buckets g))\<rparr>))"

text \<open>
  The body of the loop over the timeline (lines 163 to 238). The statements on the
  employee's own variables and those on the shared accumulators read none of each
  other's variables; they are grouped into \<^const>\<open>local_step\<close> and \<^const>\<open>global_step\<close>.
\<close>

definition snap_step :: "bool \<Rightarrow> snapshot \<Rightarrow> walk_state \<times> globals \<Rightarrow> walk_state \<times> globals" where
  "snap_step is_last snap s = (case s of (w, g) \<Rightarrow> (local_step is_last snap w, global_step snap g))"

text \<open>The loop itself; the last iteration is the one with \<^verbatim>\<open>idx == len(timeline) - 1\<close>.\<close>

fun walk :: "snapshot list \<Rightarrow> walk_state \<times> globals \<Rightarrow> walk_state \<times> globals" where
  "walk [] s = s"
| "walk (snap # rest) s = walk rest (snap_step (rest = []) snap s)"

subsection \<open>AggregationDriver: the first pass\<close>

text \<open>
  The index entry of an employee, with the fields the verified properties read. The
  fields \<^verbatim>\<open>Meta\<close>, \<^verbatim>\<open>_lastJob\<close>, \<^verbatim>\<open>_roleStr\<close> and \<^verbatim>\<open>_searchStr\<close> are copies and
  formatted strings and are left out, as are the role sets, the yearly transition
  counts, the latest dates and the medians of the aggregates document. The exclusion
  date is \<^term>\<open>None\<close> where Python has \<^verbatim>\<open>None\<close>.
\<close>

record index_entry =
  hasTimeline :: bool
  lastDate :: string
  totalPay :: real
  payMissing :: bool
  isUnclass :: bool
  isFullTime :: bool
  colaReceived :: bool
  colaChecked :: nat
  colaMissedLabels :: "string list"
  colaMissing :: bool
  wasExcluded :: bool
  exclusionDate :: "string option"
  peerPercentile :: "real option"

type_synonym index_map = "string \<rightharpoonup> index_entry"

record run_state =
  index :: index_map
  snap_pay_map :: "string \<rightharpoonup> (string \<rightharpoonup> real)"
  glob :: globals

definition init_state :: run_state where
  "init_state = \<lparr>index = Map.empty, snap_pay_map = Map.empty, glob = init_globals\<rparr>"

text \<open>The sort key \<^verbatim>\<open>s.get("Date") or ""\<close> and the stable in-place sort of line 144.\<close>

definition date_key :: "snapshot \<Rightarrow> string" where
  "date_key s = str_or (snap_date s) []"

definition sort_timeline :: "snapshot list \<Rightarrow> snapshot list" where
  "sort_timeline tline = sort_key date_key tline"

text \<open>
  Lines 149 to 156 and 240 to 279: the index entry, from the sorted timeline and the
  variables the loop leaves.
\<close>

definition make_entry :: "snapshot list \<Rightarrow> walk_state \<Rightarrow> index_entry" where
  "make_entry tline w =
     (let last_snap = (if tline = [] then None else Some (last tline));
          last_date = (case last_snap of None \<Rightarrow> None | Some ls \<Rightarrow> snap_date ls);
          unclass = (case last_snap of
                       None \<Rightarrow> is_unclass w
                     | Some ls \<Rightarrow> is_unclass_source (snap_source ls))
      in \<lparr>hasTimeline = (tline \<noteq> []),
          lastDate = str_or last_date [],
          totalPay = total_pay w,
          payMissing = pay_missing w,
          isUnclass = unclass,
          isFullTime = is_full_time w,
          colaReceived = True,
          colaChecked = 0,
          colaMissedLabels = [],
          colaMissing = False,
          wasExcluded = (was_excluded w \<and> unclass),
          exclusionDate =
            (if was_excluded w \<and> unclass then first_exclusion_date w else Some []),
          peerPercentile = None\<rparr>)"

text \<open>
  Lines 143 to 287 for one employee. The sort of line 144 is in place: the employee's
  record in the loaded data is returned with the sorted timeline.
\<close>

definition process_person :: "string \<Rightarrow> person \<Rightarrow> run_state \<Rightarrow> person \<times> run_state" where
  "process_person name p st =
     (let tline = sort_timeline (timeline p)
      in case walk tline (init_walk, glob st) of
           (w, g) \<Rightarrow>
             (p\<lparr>timeline := tline\<rparr>,
              st\<lparr>index := (index st)(name \<mapsto> make_entry tline w),
                 snap_pay_map := (snap_pay_map st)(name \<mapsto> snap_by_date_pay w),
                 glob := g\<rparr>))"

text \<open>The loop of line 142 over the employees; it returns the data as the sorts leave it.\<close>

fun first_pass ::
  "(string \<times> person) list \<Rightarrow> run_state \<Rightarrow> (string \<times> person) list \<times> run_state"
where
  "first_pass [] st = ([], st)"
| "first_pass ((name, p) # rest) st =
     (case process_person name p st of
        (p', st') \<Rightarrow>
          (case first_pass rest st' of
             (rest', st'') \<Rightarrow> ((name, p') # rest', st'')))"

subsection \<open>PeerRankEngine\<close>

text \<open>Lines 292 to 297: every bucket is sorted in place.\<close>

definition sort_buckets :: "peers \<Rightarrow> peers" where
  "sort_buckets pb = (\<lambda>d. map_option (\<lambda>m key. map_option sort (m key)) (pb d))"

text \<open>\<^verbatim>\<open>bisect.bisect_left\<close> and \<^verbatim>\<open>bisect.bisect_right\<close> of the standard library.\<close>

function bisect_left_loop :: "real list \<Rightarrow> real \<Rightarrow> nat \<Rightarrow> nat \<Rightarrow> nat" where
  "bisect_left_loop a x lo hi =
     (if lo < hi then
        (let mid = (lo + hi) div 2 in
         if a ! mid < x then bisect_left_loop a x (mid + 1) hi
         else bisect_left_loop a x lo mid)
      else lo)"
  by pat_completeness auto
termination
  by (relation "measure (\<lambda>(a, x, lo, hi). hi - lo)") auto

function bisect_right_loop :: "real list \<Rightarrow> real \<Rightarrow> nat \<Rightarrow> nat \<Rightarrow> nat" where
  "bisect_right_loop a x lo hi =
     (if lo < hi then
        (let mid = (lo + hi) div 2 in
         if x < a ! mid then bisect_right_loop a x lo mid
         else bisect_right_loop a x (mid + 1) hi)
      else lo)"
  by pat_completeness auto
termination
  by (relation "measure (\<lambda>(a, x, lo, hi). hi - lo)") auto

declare bisect_left_loop.simps [simp del]
declare bisect_right_loop.simps [simp del]

definition bisect_left :: "real list \<Rightarrow> real \<Rightarrow> nat" where
  "bisect_left a x = bisect_left_loop a x 0 (length a)"

definition bisect_right :: "real list \<Rightarrow> real \<Rightarrow> nat" where
  "bisect_right a x = bisect_right_loop a x 0 (length a)"

text \<open>Line 323: the rank formula on a bucket.\<close>

definition rank_formula :: "real list \<Rightarrow> real \<Rightarrow> real" where
  "rank_formula bucket last_pay =
     (let below = int (bisect_left bucket last_pay);
          equal = int (bisect_right bucket last_pay) - below
      in ((real_of_int below + 0.5 * real_of_int equal) / real (length bucket)) * 100)"

text \<open>Lines 301 to 323 for one employee, on the sorted buckets and the sorted timeline.\<close>

definition peer_percentile :: "peers \<Rightarrow> person \<Rightarrow> real option" where
  "peer_percentile pb p =
     (let tline = timeline p in
      if tline = [] then None
      else
        (let last_snap = last tline in
         case snap_jobs last_snap of
           [] \<Rightarrow> None
         | primary_job # _ \<Rightarrow>
             (let key = peer_key primary_job;
                  last_pay = calculate_snapshot_pay last_snap;
                  date_buckets = (case snap_date last_snap of None \<Rightarrow> None | Some d \<Rightarrow> pb d);
                  bucket = (case date_buckets of None \<Rightarrow> None | Some m \<Rightarrow> m key)
              in case bucket of
                   None \<Rightarrow> None
                 | Some b \<Rightarrow>
                     if b = [] \<or> length b \<le> 1 \<or> last_pay \<le> 0 then None
                     else Some (rank_formula b last_pay))))"

text \<open>
  \<^verbatim>\<open>index[name][...] = ...\<close> on an entry. The first pass gives every name of the data
  an entry, so the missing entry (a \<^verbatim>\<open>KeyError\<close> at line 327, the \<^verbatim>\<open>continue\<close> of
  line 336) does not occur.
\<close>

definition update_entry :: "string \<Rightarrow> (index_entry \<Rightarrow> index_entry) \<Rightarrow> index_map \<Rightarrow> index_map" where
  "update_entry name f idx = (case idx name of None \<Rightarrow> idx | Some e \<Rightarrow> idx(name \<mapsto> f e))"

text \<open>Lines 300 to 329: the percentile of every employee, then written to the index.\<close>

definition peer_percentiles :: "peers \<Rightarrow> (string \<times> person) list \<Rightarrow> (string \<times> real option) list" where
  "peer_percentiles pb data = map (\<lambda>(name, p). (name, peer_percentile pb p)) data"

definition assign_percentiles :: "(string \<times> real option) list \<Rightarrow> index_map \<Rightarrow> index_map" where
  "assign_percentiles pps idx =
     fold (\<lambda>(name, pct). update_entry name (\<lambda>e. e\<lparr>peerPercentile := pct\<rparr>)) pps idx"

subsection \<open>ColaEvaluator: the status of an employee\<close>

text \<open>\<^verbatim>\<open>snap_by_date_pay.get(d, 0.0)\<close>\<close>

definition pay_at :: "(string \<rightharpoonup> real) \<Rightarrow> string \<Rightarrow> real" where
  "pay_at pays d = (case pays d of None \<Rightarrow> 0 | Some v \<Rightarrow> v)"

text \<open>
  Lines 349 to 364: one event pair, on the triple
  \<^verbatim>\<open>(cola_received, cola_checked, cola_missed)\<close>.
\<close>

definition cola_check ::
  "(string \<rightharpoonup> real) \<Rightarrow> cola_pair \<Rightarrow> bool \<times> nat \<times> string list \<Rightarrow> bool \<times> nat \<times> string list"
where
  "cola_check pays event acc =
     (case acc of
        (cola_received, cola_checked, cola_missed) \<Rightarrow>
          if \<not> truthy (beforeDate event) \<or> \<not> truthy (afterDate event) then acc
          else if beforeDate event = afterDate event then acc
          else
            (let before_pay = pay_at pays (str_or (beforeDate event) []);
                 after_pay = pay_at pays (str_or (afterDate event) [])
             in if before_pay \<le> 0 then acc
                else
                  (let pct_change = ((after_pay - before_pay) / before_pay) * 100
                   in if pct_change \<ge> pair_pct event - COLA_TOLERANCE_PCT
                      then (True, cola_checked + 1, cola_missed)
                      else (cola_received, cola_checked + 1, cola_missed @ [pair_label event]))))"

text \<open>Lines 337 to 369 on the entry of one employee.\<close>

definition cola_status :: "cola_pair list \<Rightarrow> (string \<rightharpoonup> real) \<Rightarrow> index_entry \<Rightarrow> index_entry" where
  "cola_status pairs pays e =
     (if isUnclass e
      then e\<lparr>colaReceived := True, colaChecked := 0, colaMissedLabels := [],
             colaMissing := False\<rparr>
      else
        (case fold (cola_check pays) pairs (False, 0, []) of
           (cola_received, cola_checked, cola_missed) \<Rightarrow>
             e\<lparr>colaReceived := cola_received, colaChecked := cola_checked,
               colaMissedLabels := cola_missed,
               colaMissing := (\<not> cola_received \<and> cola_checked > 0)\<rparr>))"

text \<open>\<^verbatim>\<open>snap_pay_map.get(name, {})\<close>\<close>

definition pays_of :: "(string \<rightharpoonup> (string \<rightharpoonup> real)) \<Rightarrow> string \<Rightarrow> (string \<rightharpoonup> real)" where
  "pays_of spm name = (case spm name of None \<Rightarrow> Map.empty | Some m \<Rightarrow> m)"

definition cola_pass ::
  "cola_pair list \<Rightarrow> (string \<rightharpoonup> (string \<rightharpoonup> real)) \<Rightarrow> string list \<Rightarrow> index_map \<Rightarrow> index_map"
where
  "cola_pass pairs spm names idx =
     fold (\<lambda>name. update_entry name (cola_status pairs (pays_of spm name))) names idx"

subsection \<open>The run\<close>

record run_output =
  out_data :: "(string \<times> person) list"
  out_index :: index_map
  out_snapshot_dates :: "string list"
  out_stats_map :: stats
  out_peer_buckets :: peers
  out_cola_pairs :: "cola_pair list"

definition main :: "(string \<times> person) list \<Rightarrow> run_output" where
  "main data =
     (case first_pass data init_state of
        (data1, st) \<Rightarrow>
          (let pb = sort_buckets (peer_buckets (glob st));
               idx1 = assign_percentiles (peer_percentiles pb data1) (index st);
               dates = sorted_list_of_set (snapshot_dates (glob st));
               cola_pairs = build_cola_pairs dates COLA_EVENTS;
               idx2 = cola_pass cola_pairs (snap_pay_map st) (map fst data1) idx1
           in \<lparr>out_data = data1, out_index = idx2, out_snapshot_dates = dates,
               out_stats_map = stats_map (glob st), out_peer_buckets = pb,
               out_cola_pairs = cola_pairs\<rparr>))"

subsection \<open>The row passes of the benchmark\<close>

type_synonym row = "string \<times> bool \<times> real \<times> string option"

text \<open>The body of the loop of \<^verbatim>\<open>load_rows\<close> over one sorted timeline.\<close>

definition snapshot_row :: "snapshot \<Rightarrow> row list" where
  "snapshot_row snap =
     (case snap_date snap of
        None \<Rightarrow> []
      | Some d \<Rightarrow>
          if d = [] then []
          else [(d, is_unclass_source (snap_source snap), calculate_snapshot_pay snap,
                 (case snap_jobs snap of
                    [] \<Rightarrow> None
                  | primary_job # _ \<Rightarrow> Some (peer_key primary_job)))])"

definition load_rows :: "(string \<times> person) list \<Rightarrow> row list" where
  "load_rows data =
     concat (map (\<lambda>(name, p). concat (map snapshot_row (sort_timeline (timeline p)))) data)"

definition stats_row_step :: "row \<Rightarrow> stats \<Rightarrow> stats" where
  "stats_row_step r sm = (case r of (d, unclass, snap_pay, _) \<Rightarrow> stats_update d unclass snap_pay sm)"

definition peers_row_step :: "row \<Rightarrow> peers \<Rightarrow> peers" where
  "peers_row_step r pb =
     (case r of
        (d, _, snap_pay, peer_key_opt) \<Rightarrow>
          if truthy peer_key_opt then peers_append d (str_or peer_key_opt []) snap_pay pb
          else pb)"

definition current_stats_only :: "row list \<Rightarrow> stats" where
  "current_stats_only rows = fold stats_row_step rows Map.empty"

definition current_stats_and_peers :: "row list \<Rightarrow> stats \<times> peers" where
  "current_stats_and_peers rows =
     fold (\<lambda>r (sm, pb). (stats_row_step r sm, peers_row_step r pb)) rows (Map.empty, Map.empty)"

text \<open>
  The separate cohort-only pass of the parity property, following the specification:
  every row with a cohort key appends its pay to the bucket of its date and key, and
  nothing else is computed.
\<close>

definition cohort_only_pass :: "row list \<Rightarrow> peers" where
  "cohort_only_pass rows = fold peers_row_step rows Map.empty"

text \<open>\<^verbatim>\<open>peer_bucket_counts\<close>: the length of every bucket.\<close>

definition peer_bucket_counts :: "peers \<Rightarrow> (string \<rightharpoonup> (string \<rightharpoonup> nat))" where
  "peer_bucket_counts pb = (\<lambda>d. map_option (\<lambda>m key. map_option length (m key)) (pb d))"

subsection \<open>Vocabulary of the pay calculation\<close>



subsection \<open>Example data: two jobs\<close>



subsection \<open>Vocabulary of the date pairs\<close>

text \<open>
  The latest date at or before an effective date, and the earliest at or after it, among
  a list of dates; \<^term>\<open>None\<close> when no date qualifies.
\<close>

definition latest_at_or_before :: "string list \<Rightarrow> string \<Rightarrow> string option" where
  "latest_at_or_before dates eff =
     (let qualifying = filter (\<lambda>d. d \<le> eff) dates
      in if qualifying = [] then None else Some (Max (set qualifying)))"

definition earliest_at_or_after :: "string list \<Rightarrow> string \<Rightarrow> string option" where
  "earliest_at_or_after dates eff =
     (let qualifying = filter (\<lambda>d. d \<ge> eff) dates
      in if qualifying = [] then None else Some (Min (set qualifying)))"

text \<open>The pair of an event as the specification describes it.\<close>

definition spec_pair :: "string list \<Rightarrow> cola_event \<Rightarrow> cola_pair" where
  "spec_pair dates e =
     \<lparr>pair_label = ev_label e, pair_effective = ev_effective e, pair_pct = ev_pct e,
      beforeDate = latest_at_or_before dates (ev_effective e),
      afterDate = earliest_at_or_after dates (ev_effective e)\<rparr>"

subsection \<open>Vocabulary of the run\<close>

text \<open>The employee's part of the loop over the timeline.\<close>

fun walk_local :: "snapshot list \<Rightarrow> walk_state \<Rightarrow> walk_state" where
  "walk_local [] w = w"
| "walk_local (snap # rest) w = walk_local rest (local_step (rest = []) snap w)"

text \<open>The sorted timeline of an employee, and the employee as the first pass leaves it.\<close>

definition sorted_timeline :: "person \<Rightarrow> snapshot list" where
  "sorted_timeline p = sort_timeline (timeline p)"

definition sorted_person :: "person \<Rightarrow> person" where
  "sorted_person p = p\<lparr>timeline := sorted_timeline p\<rparr>"

text \<open>What the loop leaves for an employee, the entry the first pass writes, and the pay by date.\<close>

definition person_walk :: "person \<Rightarrow> walk_state" where
  "person_walk p = walk_local (sorted_timeline p) init_walk"

definition first_entry :: "person \<Rightarrow> index_entry" where
  "first_entry p = make_entry (sorted_timeline p) (person_walk p)"

definition employee_pays :: "person \<Rightarrow> (string \<rightharpoonup> real)" where
  "employee_pays p = fold record_pay (sorted_timeline p) Map.empty"

text \<open>All snapshots in the order the first pass visits them.\<close>

definition all_snapshots :: "(string \<times> person) list \<Rightarrow> snapshot list" where
  "all_snapshots data = concat (map (\<lambda>(name, p). sorted_timeline p) data)"

subsection \<open>Vocabulary of the COLA status\<close>

text \<open>The employee's last snapshot, in the sorted timeline, is unclassified.\<close>

definition last_unclass :: "person \<Rightarrow> bool" where
  "last_unclass p =
     (sorted_timeline p \<noteq> [] \<and> is_unclass_source (snap_source (last (sorted_timeline p))))"

text \<open>
  A pair is evaluated for an employee: both dates are set, they differ, and the
  employee's pay recorded at the before date is positive.
\<close>

definition pair_evaluated :: "(string \<rightharpoonup> real) \<Rightarrow> cola_pair \<Rightarrow> bool" where
  "pair_evaluated pays pr =
     (case (beforeDate pr, afterDate pr) of
        (Some b, Some a) \<Rightarrow> b \<noteq> a \<and> pay_at pays b > 0
      | _ \<Rightarrow> False)"

text \<open>The dates the first pass observes, in the order it meets them.\<close>

definition observed_date :: "snapshot \<Rightarrow> string list" where
  "observed_date s = (case snap_date s of None \<Rightarrow> [] | Some d \<Rightarrow> if d = [] then [] else [d])"

definition snapshot_date_list :: "snapshot list \<Rightarrow> string list" where
  "snapshot_date_list ss = concat (map observed_date ss)"

definition observed_dates :: "(string \<times> person) list \<Rightarrow> string list" where
  "observed_dates data = snapshot_date_list (all_snapshots data)"

subsection \<open>Example data: two employees\<close>

definition ex_job :: "real \<Rightarrow> job" where
  "ex_job r = \<lparr>annual_salary_rate = JNum r, salary_term = None, appt_percent = JNum 100,
              job_orgn = Some ''Math'', job_title = Some ''Prof''\<rparr>"

definition ex_snap :: "string \<Rightarrow> string \<Rightarrow> real \<Rightarrow> snapshot" where
  "ex_snap d src r = \<lparr>snap_date = Some d, snap_source = Some src, snap_jobs = [ex_job r]\<rparr>"

definition ann :: person where
  "ann = \<lparr>timeline = [ex_snap ''2024-05-01'' ''Classified'' 1065,
                       ex_snap ''2024-03-01'' ''Classified'' 1000]\<rparr>"

definition bob :: person where
  "bob = \<lparr>timeline = [ex_snap ''2024-05-01'' ''Unclassified Staff'' 2000]\<rparr>"

definition ex_data :: "(string \<times> person) list" where
  "ex_data = [(''Ann'', ann), (''Bob'', bob)]"

subsection \<open>Vocabulary of the exclusion tracking\<close>

definition unclass_snap :: "snapshot \<Rightarrow> bool" where
  "unclass_snap s = is_unclass_source (snap_source s)"

text \<open>
  The snapshots of a timeline at which the status goes from classified to unclassified,
  in order; \<^term>\<open>prev\<close> is the status before the first snapshot of the list.
\<close>

fun transitions_from :: "bool \<Rightarrow> snapshot list \<Rightarrow> snapshot list" where
  "transitions_from prev [] = []"
| "transitions_from prev (s # rest) =
     (if \<not> prev \<and> unclass_snap s then [s] else []) @ transitions_from (unclass_snap s) rest"

definition exclusion_transitions :: "snapshot list \<Rightarrow> snapshot list" where
  "exclusion_transitions ss =
     (case ss of [] \<Rightarrow> [] | s # rest \<Rightarrow> transitions_from (unclass_snap s) rest)"

text \<open>The employee's first snapshot, in the sorted timeline, is classified.\<close>

definition first_classified :: "person \<Rightarrow> bool" where
  "first_classified p =
     (case sorted_timeline p of [] \<Rightarrow> False | s # _ \<Rightarrow> \<not> unclass_snap s)"

text \<open>The date of the first of the transitions, as the claim words the exclusion date.\<close>

definition first_transition_date :: "snapshot list \<Rightarrow> string option" where
  "first_transition_date ts = (case ts of [] \<Rightarrow> None | s # _ \<Rightarrow> snap_date s)"

text \<open>
  The date the code reports: that of the first transition that carries a non-empty date,
  and when none does, the (absent or empty) date of the last transition.
\<close>

definition reported_date :: "snapshot list \<Rightarrow> string option" where
  "reported_date ts =
     (case filter (\<lambda>s. truthy (snap_date s)) ts of
        s # _ \<Rightarrow> snap_date s
      | [] \<Rightarrow> (case rev ts of [] \<Rightarrow> None | s # _ \<Rightarrow> snap_date s))"

text \<open>The variable \<^verbatim>\<open>first_exclusion_date\<close> over a list of transitions.\<close>

definition pick_date :: "string option \<Rightarrow> snapshot list \<Rightarrow> string option" where
  "pick_date fed ts = fold (\<lambda>s fed. if truthy fed then fed else snap_date s) ts fed"

subsection \<open>Example data: an employee with undated snapshots\<close>

definition carl :: person where
  "carl = \<lparr>timeline =
     [\<lparr>snap_date = None, snap_source = Some ''Classified'', snap_jobs = []\<rparr>,
      \<lparr>snap_date = None, snap_source = Some ''Unclassified'', snap_jobs = []\<rparr>,
      \<lparr>snap_date = Some ''2024-01-01'', snap_source = Some ''Classified'', snap_jobs = []\<rparr>,
      \<lparr>snap_date = Some ''2024-02-01'', snap_source = Some ''Unclassified'', snap_jobs = []\<rparr>]\<rparr>"

subsection \<open>Example data: a return to classified status\<close>

definition dana :: person where
  "dana = \<lparr>timeline =
     [\<lparr>snap_date = Some ''2024-01-01'', snap_source = Some ''Classified'', snap_jobs = []\<rparr>,
      \<lparr>snap_date = Some ''2024-02-01'', snap_source = Some ''Unclassified'', snap_jobs = []\<rparr>,
      \<lparr>snap_date = Some ''2024-03-01'', snap_source = Some ''Classified'', snap_jobs = []\<rparr>]\<rparr>"

subsection \<open>Vocabulary of the peer ranks\<close>

text \<open>
  A snapshot belongs to the cohort of a date and a key: its date is that date, which is
  not empty, and it has a primary job with that key.
\<close>

definition in_cohort :: "string option \<Rightarrow> string \<Rightarrow> snapshot \<Rightarrow> bool" where
  "in_cohort d key s =
     (truthy d \<and> snap_date s = d \<and>
      (case snap_jobs s of [] \<Rightarrow> False | primary_job # _ \<Rightarrow> peer_key primary_job = key))"

text \<open>The pays of a cohort over all snapshots of the data, and the sorted pay list.\<close>

definition cohort_pays :: "snapshot list \<Rightarrow> string option \<Rightarrow> string \<Rightarrow> real list" where
  "cohort_pays ss d key = map calculate_snapshot_pay (filter (in_cohort d key) ss)"










subsection \<open>Example data: a cohort with a tie\<close>





section \<open>Properties\<close>

subsection \<open>PayCalculator\<close>







subsection \<open>ColaEvaluator: the date pairs\<close>

lemma scan_dates_filter:
  "scan_dates eff ds b a =
     ((case filter (\<lambda>d. d \<le> eff) ds of [] \<Rightarrow> b | x # xs \<Rightarrow> Some (last (x # xs))),
      (case a of
         Some y \<Rightarrow> Some y
       | None \<Rightarrow> (case filter (\<lambda>d. d \<ge> eff) ds of [] \<Rightarrow> None | x # _ \<Rightarrow> Some x)))"
proof (induction ds arbitrary: b a)
  case Nil
  then show ?case by (simp split: option.splits)
next
  case (Cons d ds)
  show ?case
    by (simp add: Cons.IH split: option.splits list.splits)
qed

lemma sorted_last_Max:
  fixes xs :: "'a::linorder list"
  shows "sorted xs \<Longrightarrow> xs \<noteq> [] \<Longrightarrow> last xs = Max (set xs)"
  by (induction xs) (auto simp: max_def Max_insert intro!: antisym)

lemma sorted_hd_Min:
  fixes xs :: "'a::linorder list"
  shows "sorted xs \<Longrightarrow> xs \<noteq> [] \<Longrightarrow> hd xs = Min (set xs)"
  by (cases xs) (auto intro!: Min_eqI [symmetric])

lemma scan_dates_sorted:
  assumes "sorted dates"
  shows "scan_dates eff dates None None =
           (latest_at_or_before dates eff, earliest_at_or_after dates eff)"
proof -
  have s1: "sorted (filter (\<lambda>d. d \<le> eff) dates)" and s2: "sorted (filter (\<lambda>d. d \<ge> eff) dates)"
    using assms by (simp_all add: sorted_wrt_filter)
  have b: "(case filter (\<lambda>d. d \<le> eff) dates of [] \<Rightarrow> None | x # xs \<Rightarrow> Some (last (x # xs)))
             = latest_at_or_before dates eff"
    using sorted_last_Max [OF s1]
    by (auto simp: latest_at_or_before_def Let_def split: list.splits)
  have a: "(case filter (\<lambda>d. d \<ge> eff) dates of [] \<Rightarrow> None | x # _ \<Rightarrow> Some x)
             = earliest_at_or_after dates eff"
    using sorted_hd_Min [OF s2]
    by (auto simp: earliest_at_or_after_def Let_def split: list.splits)
  show ?thesis
    by (simp add: scan_dates_filter a b)
qed

lemma latest_le: "latest_at_or_before dates eff = Some b \<Longrightarrow> b \<le> eff"
proof -
  assume h: "latest_at_or_before dates eff = Some b"
  let ?q = "filter (\<lambda>d. d \<le> eff) dates"
  from h have ne: "?q \<noteq> []" and b: "b = Max (set ?q)"
    by (auto simp: latest_at_or_before_def Let_def split: if_splits)
  have "set ?q \<noteq> {}" using ne by (simp only: set_empty simp_thms)
  then have "Max (set ?q) \<in> set ?q" by (rule Max_in [OF finite_set])
  then show ?thesis using b by auto
qed

lemma earliest_ge: "earliest_at_or_after dates eff = Some a \<Longrightarrow> eff \<le> a"
proof -
  assume h: "earliest_at_or_after dates eff = Some a"
  let ?q = "filter (\<lambda>d. d \<ge> eff) dates"
  from h have ne: "?q \<noteq> []" and a: "a = Min (set ?q)"
    by (auto simp: earliest_at_or_after_def Let_def split: if_splits)
  have "set ?q \<noteq> {}" using ne by (simp only: set_empty simp_thms)
  then have "Min (set ?q) \<in> set ?q" by (rule Min_in [OF finite_set])
  then show ?thesis using a by auto
qed

lemma build_pair_sorted: "sorted dates \<Longrightarrow> build_pair dates e = spec_pair dates e"
  by (simp add: build_pair_def spec_pair_def scan_dates_sorted)

text \<open>
  Claim C3. On an ascending list of dates, \<^verbatim>\<open>build_cola_pairs\<close> gives every event the
  latest date at or before its effective date as \<^verbatim>\<open>beforeDate\<close> and the earliest date at
  or after it as \<^verbatim>\<open>afterDate\<close>, a side being \<^term>\<open>None\<close> when no date qualifies (and no
  pair at all is built from an empty list of dates); when both sides are set, the after
  date is never before the before date.
\<close>

theorem build_cola_pairs_spec:
  assumes "sorted dates"
  shows "build_cola_pairs dates events =
           (if dates = [] then [] else map (spec_pair dates) events) \<and>
         (\<forall>p \<in> set (build_cola_pairs dates events). \<forall>b a.
            beforeDate p = Some b \<and> afterDate p = Some a \<longrightarrow> \<not> a < b)"
proof -
  have eq: "build_cola_pairs dates events =
           (if dates = [] then [] else map (spec_pair dates) events)"
    using assms by (simp add: build_cola_pairs_def build_pair_sorted)
  have ord: "\<not> a < b" if "p \<in> set (build_cola_pairs dates events)"
    "beforeDate p = Some b" "afterDate p = Some a" for p b a
  proof -
    from that(1) eq obtain e where "p = spec_pair dates e"
      by (auto split: if_splits)
    with that(2,3) have "b \<le> ev_effective e" "ev_effective e \<le> a"
      by (auto simp: spec_pair_def dest: latest_le earliest_ge)
    then show ?thesis by auto
  qed
  from eq ord show ?thesis by blast
qed

theorem build_cola_pairs_spec_witness:
  "build_cola_pairs [''2024-03-01'', ''2024-05-01''] COLA_EVENTS =
     [\<lparr>pair_label = ''6.5% COLA'', pair_effective = ''2024-04-01'', pair_pct = 6.5,
       beforeDate = Some ''2024-03-01'', afterDate = Some ''2024-05-01''\<rparr>,
      \<lparr>pair_label = ''2% COLA'', pair_effective = ''2024-11-01'', pair_pct = 2,
       beforeDate = Some ''2024-05-01'', afterDate = None\<rparr>,
      \<lparr>pair_label = ''3.5% COLA'', pair_effective = ''2025-06-01'', pair_pct = 3.5,
       beforeDate = Some ''2024-05-01'', afterDate = None\<rparr>]"
proof -
  have s: "sorted [''2024-03-01'', ''2024-05-01'']" by simp
  show ?thesis
    using build_cola_pairs_spec [OF s, of COLA_EVENTS]
    by (simp add: COLA_EVENTS_def spec_pair_def latest_at_or_before_def
        earliest_at_or_after_def)
qed

subsection \<open>The passes of the run\<close>

lemma walk_split: "walk ss (w, g) = (walk_local ss w, fold global_step ss g)"
  by (induction ss arbitrary: w g) (simp_all add: snap_step_def)

lemma process_person_eq:
  "process_person name p st =
     (sorted_person p,
      st\<lparr>index := (index st)(name \<mapsto> first_entry p),
         snap_pay_map := (snap_pay_map st)(name \<mapsto> snap_by_date_pay (person_walk p)),
         glob := fold global_step (sorted_timeline p) (glob st)\<rparr>)"
  by (simp add: process_person_def walk_split sorted_person_def sorted_timeline_def
      first_entry_def person_walk_def Let_def)

lemma first_pass_Cons:
  "first_pass ((name, p) # rest) st =
     ((name, sorted_person p) # fst (first_pass rest (snd (process_person name p st))),
      snd (first_pass rest (snd (process_person name p st))))"
  by (simp add: process_person_eq split: prod.splits)

lemma first_pass_data:
  "fst (first_pass data st) = map (\<lambda>(name, p). (name, sorted_person p)) data"
proof (induction data arbitrary: st)
  case Nil
  then show ?case by simp
next
  case (Cons a data)
  obtain name p where a: "a = (name, p)" by (cases a)
  show ?case
    unfolding a first_pass_Cons by (simp add: Cons.IH)
qed

lemma first_pass_glob:
  "glob (snd (first_pass data st)) = fold global_step (all_snapshots data) (glob st)"
proof (induction data arbitrary: st)
  case Nil
  then show ?case by (simp add: all_snapshots_def)
next
  case (Cons a data)
  obtain name p where a: "a = (name, p)" by (cases a)
  show ?case
    unfolding a first_pass_Cons
    by (simp add: Cons.IH process_person_eq all_snapshots_def)
qed

lemma first_pass_index:
  "distinct (map fst data) \<Longrightarrow>
   index (snd (first_pass data st)) n =
     (case map_of data n of None \<Rightarrow> index st n | Some p \<Rightarrow> Some (first_entry p))"
proof (induction data arbitrary: st)
  case Nil
  then show ?case by simp
next
  case (Cons a data)
  obtain name p where a: "a = (name, p)" by (cases a)
  from Cons.prems a have nk: "map_of data name = None" and d: "distinct (map fst data)"
    by (auto simp: map_of_eq_None_iff)
  show ?case
    unfolding a first_pass_Cons
    using nk by (simp add: Cons.IH [OF d] process_person_eq split: option.splits)
qed

lemma first_pass_snap_pay_map:
  "distinct (map fst data) \<Longrightarrow>
   snap_pay_map (snd (first_pass data st)) n =
     (case map_of data n of
        None \<Rightarrow> snap_pay_map st n
      | Some p \<Rightarrow> Some (snap_by_date_pay (person_walk p)))"
proof (induction data arbitrary: st)
  case Nil
  then show ?case by simp
next
  case (Cons a data)
  obtain name p where a: "a = (name, p)" by (cases a)
  from Cons.prems a have nk: "map_of data name = None" and d: "distinct (map fst data)"
    by (auto simp: map_of_eq_None_iff)
  show ?case
    unfolding a first_pass_Cons
    using nk by (simp add: Cons.IH [OF d] process_person_eq split: option.splits)
qed

lemma local_step_pays:
  "snap_by_date_pay (local_step l s w) = record_pay s (snap_by_date_pay w)"
  by (simp add: local_step_def classify_step_def last_snapshot_step_def Let_def)

lemma walk_local_pays:
  "snap_by_date_pay (walk_local ss w) = fold record_pay ss (snap_by_date_pay w)"
  by (induction ss arbitrary: w) (simp_all add: local_step_pays)

lemma person_walk_pays: "snap_by_date_pay (person_walk p) = employee_pays p"
  by (simp add: person_walk_def employee_pays_def walk_local_pays init_walk_def)

lemma update_entry_apply:
  "update_entry k f idx n = (if n = k then map_option f (idx k) else idx n)"
  by (simp add: update_entry_def split: option.splits)

lemma fold_update_entry:
  "distinct (map fst kvs) \<Longrightarrow>
   fold (\<lambda>(k, v). update_entry k (F k v)) kvs idx n =
     (case map_of kvs n of None \<Rightarrow> idx n | Some v \<Rightarrow> map_option (F n v) (idx n))"
proof (induction kvs arbitrary: idx)
  case Nil
  then show ?case by simp
next
  case (Cons kv kvs)
  obtain k v where kv: "kv = (k, v)" by (cases kv)
  from Cons.prems kv have nk: "map_of kvs k = None" and d: "distinct (map fst kvs)"
    by (auto simp: map_of_eq_None_iff)
  have "fold (\<lambda>(k, v). update_entry k (F k v)) (kv # kvs) idx n =
          (case map_of kvs n of
             None \<Rightarrow> update_entry k (F k v) idx n
           | Some v' \<Rightarrow> map_option (F n v') (update_entry k (F k v) idx n))"
    by (simp add: kv Cons.IH [OF d])
  also have "\<dots> = (case map_of (kv # kvs) n of
                      None \<Rightarrow> idx n
                    | Some v \<Rightarrow> map_option (F n v) (idx n))"
    using nk by (auto simp: kv update_entry_apply split: option.splits)
  finally show ?case .
qed

lemma fold_update_entry_keys:
  "distinct ks \<Longrightarrow>
   fold (\<lambda>k. update_entry k (G k)) ks idx n =
     (if n \<in> set ks then map_option (G n) (idx n) else idx n)"
proof (induction ks arbitrary: idx)
  case Nil
  then show ?case by simp
next
  case (Cons k ks)
  from Cons.prems have nk: "k \<notin> set ks" and d: "distinct ks"
    by auto
  have "fold (\<lambda>k. update_entry k (G k)) (k # ks) idx n =
          (if n \<in> set ks then map_option (G n) (update_entry k (G k) idx n)
           else update_entry k (G k) idx n)"
    by (simp add: Cons.IH [OF d])
  also have "\<dots> = (if n \<in> set (k # ks) then map_option (G n) (idx n) else idx n)"
    using nk by (auto simp: update_entry_apply)
  finally show ?case .
qed

lemma map_of_map_snd:
  "map_of (map (\<lambda>x. (fst x, f (snd x))) data) n = map_option f (map_of data n)"
  by (induction data) auto

lemma main_index:
  assumes d: "distinct (map fst data)" and m: "(name, p) \<in> set data"
  shows "out_index (main data) name =
           Some (cola_status (out_cola_pairs (main data)) (employee_pays p)
                   ((first_entry p)\<lparr>peerPercentile :=
                      peer_percentile (out_peer_buckets (main data)) (sorted_person p)\<rparr>))"
proof -
  obtain data1 st where fp: "first_pass data init_state = (data1, st)"
    by (cases "first_pass data init_state")
  have data1: "data1 = map (\<lambda>(name, p). (name, sorted_person p)) data"
    using first_pass_data [of data init_state] fp by simp
  have mo: "map_of data name = Some p"
    using d m by simp
  have names: "map fst data1 = map fst data"
    by (simp add: data1 comp_def case_prod_unfold)
  have i0: "index st name = Some (first_entry p)"
    using first_pass_index [OF d, of init_state name] fp mo by simp
  have sp: "pays_of (snap_pay_map st) name = employee_pays p"
    using first_pass_snap_pay_map [OF d, of init_state name] fp mo
    by (simp add: pays_of_def person_walk_pays)
  let ?pb = "sort_buckets (peer_buckets (glob st))"
  let ?pps = "peer_percentiles ?pb data1"
  have dp: "distinct (map fst ?pps)"
    using d by (simp add: peer_percentiles_def data1 comp_def case_prod_unfold)
  have mp: "map_of ?pps name = Some (peer_percentile ?pb (sorted_person p))"
    using map_of_map_snd [of "\<lambda>q. peer_percentile ?pb (sorted_person q)" data name]
    by (simp add: peer_percentiles_def data1 comp_def case_prod_unfold mo)
  have i1: "assign_percentiles ?pps (index st) name =
              Some ((first_entry p)\<lparr>peerPercentile := peer_percentile ?pb (sorted_person p)\<rparr>)"
    unfolding assign_percentiles_def
    by (simp add: fold_update_entry [OF dp] mp i0)
  have nm: "name \<in> set (map fst data1)"
    using m names by force
  have dn: "distinct (map fst data1)"
    using d names by simp
  show ?thesis
    by (simp add: main_def fp Let_def cola_pass_def fold_update_entry_keys [OF dn] nm i1 sp
        del: set_map)
qed

subsection \<open>ColaEvaluator: the status of an employee\<close>

lemma global_step_dates:
  "snapshot_dates (global_step s g) = snapshot_dates g \<union> set (observed_date s)"
  by (auto simp: global_step_def observed_date_def Let_def split: option.splits)

lemma fold_global_step_dates:
  "snapshot_dates (fold global_step ss g) = snapshot_dates g \<union> set (snapshot_date_list ss)"
proof (induction ss arbitrary: g)
  case Nil
  then show ?case by (simp add: snapshot_date_list_def)
next
  case (Cons s ss)
  show ?case
    by (simp add: Cons.IH global_step_dates snapshot_date_list_def Un_assoc)
qed

lemma main_fields:
  "out_data (main data) = fst (first_pass data init_state)"
  "out_stats_map (main data) = stats_map (glob (snd (first_pass data init_state)))"
  "out_peer_buckets (main data) = sort_buckets (peer_buckets (glob (snd (first_pass data init_state))))"
  "out_snapshot_dates (main data) =
     sorted_list_of_set (snapshot_dates (glob (snd (first_pass data init_state))))"
  "out_cola_pairs (main data) = build_cola_pairs (out_snapshot_dates (main data)) COLA_EVENTS"
  by (simp_all add: main_def Let_def split: prod.splits)

lemma main_snapshot_dates: "out_snapshot_dates (main data) = sort (remdups (observed_dates data))"
  by (simp add: main_fields first_pass_glob fold_global_step_dates init_state_def init_globals_def
      observed_dates_def sorted_list_of_set_sort_remdups)

lemma main_cola_pairs:
  "out_cola_pairs (main data) = build_cola_pairs (sort (remdups (observed_dates data))) COLA_EVENTS"
  by (simp add: main_fields(5) main_snapshot_dates)

lemma snapshot_date_list_nonempty: "d \<in> set (snapshot_date_list ss) \<Longrightarrow> d \<noteq> []"
  by (auto simp: snapshot_date_list_def observed_date_def split: option.splits if_splits)

lemma scan_dates_mem:
  "scan_dates eff ds b a = (b', a') \<Longrightarrow>
   (b' = b \<or> (\<exists>d \<in> set ds. b' = Some d)) \<and> (a' = a \<or> (\<exists>d \<in> set ds. a' = Some d))"
proof (induction ds arbitrary: b a)
  case Nil
  then show ?case by simp
next
  case (Cons d ds)
  from Cons.IH [OF Cons.prems [simplified]] show ?case
    by (auto split: if_splits)
qed

lemma build_cola_pairs_dates:
  assumes "pr \<in> set (build_cola_pairs dates events)"
  shows "(beforeDate pr = None \<or> (\<exists>d \<in> set dates. beforeDate pr = Some d)) \<and>
         (afterDate pr = None \<or> (\<exists>d \<in> set dates. afterDate pr = Some d))"
proof -
  from assms obtain e where e: "pr = build_pair dates e"
    by (auto simp: build_cola_pairs_def split: if_splits)
  obtain b a where s: "scan_dates (ev_effective e) dates None None = (b, a)"
    by (cases "scan_dates (ev_effective e) dates None None")
  from scan_dates_mem [OF s] show ?thesis
    by (simp add: e build_pair_def s)
qed

lemma main_pair_truthy:
  assumes "pr \<in> set (out_cola_pairs (main data))"
  shows "truthy (beforeDate pr) = (beforeDate pr \<noteq> None)"
    and "truthy (afterDate pr) = (afterDate pr \<noteq> None)"
proof -
  have ne: "d \<noteq> []" if "d \<in> set (sort (remdups (observed_dates data)))" for d
    using that by (auto simp: observed_dates_def dest: snapshot_date_list_nonempty)
  from build_cola_pairs_dates [OF assms [unfolded main_cola_pairs]] ne
  show "truthy (beforeDate pr) = (beforeDate pr \<noteq> None)"
    and "truthy (afterDate pr) = (afterDate pr \<noteq> None)"
    by auto
qed

lemma cola_check_cases:
  "cola_check pays pr (r, c, m) = (r, c, m) \<or>
   cola_check pays pr (r, c, m) = (True, c + 1, m) \<or>
   cola_check pays pr (r, c, m) = (r, c + 1, m @ [pair_label pr])"
  by (simp add: cola_check_def Let_def)

lemma cola_check_skip:
  assumes "truthy (beforeDate pr) = (beforeDate pr \<noteq> None)"
    and "truthy (afterDate pr) = (afterDate pr \<noteq> None)"
    and "\<not> pair_evaluated pays pr"
  shows "cola_check pays pr acc = acc"
  using assms
  by (cases acc; cases "beforeDate pr"; cases "afterDate pr")
     (auto simp: cola_check_def pair_evaluated_def Let_def)

lemma cola_check_evaluated:
  assumes "truthy (beforeDate pr) = (beforeDate pr \<noteq> None)"
    and "truthy (afterDate pr) = (afterDate pr \<noteq> None)"
    and "pair_evaluated pays pr"
  shows "fst (snd (cola_check pays pr acc)) = fst (snd acc) + 1"
  using assms
  by (cases acc; cases "beforeDate pr"; cases "afterDate pr")
     (auto simp: cola_check_def pair_evaluated_def Let_def)

lemma fold_cola_check_inv:
  "fold (cola_check pays) pairs (r, c, m) = (r', c', m') \<Longrightarrow>
   c' \<le> c + length pairs \<and> c \<le> c' \<and> length m' + c \<le> c' + length m \<and>
   set m' \<subseteq> set m \<union> pair_label ` set pairs \<and>
   (r \<longrightarrow> r') \<and> (\<not> r' \<longrightarrow> length m' + c = c' + length m)"
proof (induction pairs arbitrary: r c m)
  case Nil
  then show ?case by simp
next
  case (Cons pr pairs)
  from cola_check_cases [of pays pr r c m]
  consider (skip) "cola_check pays pr (r, c, m) = (r, c, m)"
    | (pass) "cola_check pays pr (r, c, m) = (True, c + 1, m)"
    | (miss) "cola_check pays pr (r, c, m) = (r, c + 1, m @ [pair_label pr])"
    by blast
  then show ?case
  proof cases
    case skip
    with Cons.prems have "fold (cola_check pays) pairs (r, c, m) = (r', c', m')" by simp
    from Cons.IH [OF this] show ?thesis by auto
  next
    case pass
    with Cons.prems have "fold (cola_check pays) pairs (True, c + 1, m) = (r', c', m')" by simp
    from Cons.IH [OF this] show ?thesis by auto
  next
    case miss
    with Cons.prems have "fold (cola_check pays) pairs (r, c + 1, m @ [pair_label pr]) = (r', c', m')"
      by simp
    from Cons.IH [OF this] show ?thesis by auto
  qed
qed


lemma build_cola_pairs_labels:
  "pair_label ` set (build_cola_pairs dates events) \<subseteq> ev_label ` set events"
  "length (build_cola_pairs dates events) \<le> length events"
  by (auto simp: build_cola_pairs_def build_pair_def split: prod.splits)

lemma local_step_is_unclass:
  "is_unclass (local_step l s w) = is_unclass_source (snap_source s)"
  by (simp add: local_step_def classify_step_def last_snapshot_step_def Let_def)

lemma first_entry_isUnclass: "isUnclass (first_entry p) = last_unclass p"
  by (simp add: first_entry_def make_entry_def last_unclass_def person_walk_def init_walk_def Let_def)

lemma cola_status_fields:
  "isUnclass e \<Longrightarrow>
     colaReceived (cola_status pairs pays e) \<and> colaChecked (cola_status pairs pays e) = 0 \<and>
     colaMissedLabels (cola_status pairs pays e) = [] \<and> \<not> colaMissing (cola_status pairs pays e)"
  "\<not> isUnclass e \<Longrightarrow>
     (colaReceived (cola_status pairs pays e), colaChecked (cola_status pairs pays e),
      colaMissedLabels (cola_status pairs pays e)) = fold (cola_check pays) pairs (False, 0, [])"
  "colaMissing (cola_status pairs pays e) =
     (\<not> colaReceived (cola_status pairs pays e) \<and> colaChecked (cola_status pairs pays e) > 0)"
  by (auto simp: cola_status_def split: prod.splits)

lemma main_entry_cola:
  assumes "distinct (map fst data)" and "(name, p) \<in> set data"
  shows "\<exists>e. out_index (main data) name = Some e \<and>
           (last_unclass p \<longrightarrow>
              colaReceived e \<and> colaChecked e = 0 \<and> colaMissedLabels e = [] \<and> \<not> colaMissing e) \<and>
           (\<not> last_unclass p \<longrightarrow>
              (colaReceived e, colaChecked e, colaMissedLabels e) =
                fold (cola_check (employee_pays p)) (out_cola_pairs (main data)) (False, 0, [])) \<and>
           colaMissing e = (\<not> colaReceived e \<and> colaChecked e > 0)"
proof -
  let ?e0 = "(first_entry p)\<lparr>peerPercentile :=
               peer_percentile (out_peer_buckets (main data)) (sorted_person p)\<rparr>"
  have u: "isUnclass ?e0 = last_unclass p"
    by (simp add: first_entry_isUnclass)
  show ?thesis
    using cola_status_fields
      [where e = ?e0 and pairs = "out_cola_pairs (main data)" and pays = "employee_pays p"]
    by (simp add: main_index [OF assms] u)
qed

text \<open>
  Claim C1. An employee whose last snapshot's source contains \<^verbatim>\<open>unclass\<close>, in any case of
  letters, has the COLA result received, 0 checked, no missed label, not missing,
  whatever the pay. For any other employee the result is the loop over the event pairs
  from (not received, 0, no label); a pair for which not both dates are set, or whose
  dates are equal, or at whose before date the employee's recorded pay is not positive,
  changes nothing; any other pair is counted as checked. The missing flag is not
  received and checked above 0.
\<close>

theorem cola_result_spec:
  assumes "distinct (map fst data)" and "(name, p) \<in> set data"
  shows "\<exists>e. out_index (main data) name = Some e \<and>
           (last_unclass p \<longrightarrow>
              colaReceived e \<and> colaChecked e = 0 \<and> colaMissedLabels e = [] \<and> \<not> colaMissing e) \<and>
           (\<not> last_unclass p \<longrightarrow>
              (colaReceived e, colaChecked e, colaMissedLabels e) =
                fold (cola_check (employee_pays p)) (out_cola_pairs (main data)) (False, 0, [])) \<and>
           (\<forall>pr \<in> set (out_cola_pairs (main data)). \<forall>acc.
              cola_check (employee_pays p) pr acc =
                (if pair_evaluated (employee_pays p) pr
                 then cola_check (employee_pays p) pr acc else acc) \<and>
              (pair_evaluated (employee_pays p) pr \<longrightarrow>
                 fst (snd (cola_check (employee_pays p) pr acc)) = fst (snd acc) + 1)) \<and>
           colaMissing e = (\<not> colaReceived e \<and> colaChecked e > 0)"
proof -
  have step: "cola_check (employee_pays p) pr acc =
                (if pair_evaluated (employee_pays p) pr
                 then cola_check (employee_pays p) pr acc else acc) \<and>
              (pair_evaluated (employee_pays p) pr \<longrightarrow>
                 fst (snd (cola_check (employee_pays p) pr acc)) = fst (snd acc) + 1)"
    if "pr \<in> set (out_cola_pairs (main data))" for pr acc
    using cola_check_skip [OF main_pair_truthy [OF that], of "employee_pays p" acc]
      cola_check_evaluated [OF main_pair_truthy [OF that], of "employee_pays p" acc]
    by simp
  from main_entry_cola [OF assms] obtain e where e: "out_index (main data) name = Some e"
    "last_unclass p \<longrightarrow>
       colaReceived e \<and> colaChecked e = 0 \<and> colaMissedLabels e = [] \<and> \<not> colaMissing e"
    "\<not> last_unclass p \<longrightarrow>
       (colaReceived e, colaChecked e, colaMissedLabels e) =
         fold (cola_check (employee_pays p)) (out_cola_pairs (main data)) (False, 0, [])"
    "colaMissing e = (\<not> colaReceived e \<and> colaChecked e > 0)"
    by blast
  show ?thesis
    using e step by blast
qed

text \<open>
  Claim C10. In the index entry of every employee the missed labels are at most as many
  as the checked pairs, the checked pairs at most as many as the configured events, of
  which there are 3; every missed label is the label of a configured event; and when the
  COLA is not received, every checked pair is a missed one.
\<close>

theorem cola_bookkeeping:
  assumes "distinct (map fst data)" and "(name, p) \<in> set data"
  shows "\<exists>e. out_index (main data) name = Some e \<and>
           length (colaMissedLabels e) \<le> colaChecked e \<and>
           colaChecked e \<le> length COLA_EVENTS \<and> length COLA_EVENTS = 3 \<and>
           set (colaMissedLabels e) \<subseteq> ev_label ` set COLA_EVENTS \<and>
           (\<not> colaReceived e \<longrightarrow> length (colaMissedLabels e) = colaChecked e)"
proof -
  let ?pairs = "out_cola_pairs (main data)"
  have lab: "pair_label ` set ?pairs \<subseteq> ev_label ` set COLA_EVENTS"
    and len: "length ?pairs \<le> length COLA_EVENTS"
    by (simp_all only: main_cola_pairs build_cola_pairs_labels)
  have n: "length COLA_EVENTS = 3"
    by (simp add: COLA_EVENTS_def)
  from main_entry_cola [OF assms] obtain e where e: "out_index (main data) name = Some e"
    "last_unclass p \<longrightarrow>
       colaReceived e \<and> colaChecked e = 0 \<and> colaMissedLabels e = [] \<and> \<not> colaMissing e"
    "\<not> last_unclass p \<longrightarrow>
       (colaReceived e, colaChecked e, colaMissedLabels e) =
         fold (cola_check (employee_pays p)) ?pairs (False, 0, [])"
    by blast
  have "length (colaMissedLabels e) \<le> colaChecked e \<and>
        colaChecked e \<le> length COLA_EVENTS \<and>
        set (colaMissedLabels e) \<subseteq> ev_label ` set COLA_EVENTS \<and>
        (\<not> colaReceived e \<longrightarrow> length (colaMissedLabels e) = colaChecked e)"
  proof (cases "last_unclass p")
    case True
    with e(2) show ?thesis by simp
  next
    case False
    with e(3) have "fold (cola_check (employee_pays p)) ?pairs (False, 0, []) =
        (colaReceived e, colaChecked e, colaMissedLabels e)"
      by simp
    from fold_cola_check_inv [OF this]
    have inv: "colaChecked e \<le> length ?pairs" "length (colaMissedLabels e) \<le> colaChecked e"
      "set (colaMissedLabels e) \<subseteq> pair_label ` set ?pairs"
      "\<not> colaReceived e \<longrightarrow> length (colaMissedLabels e) = colaChecked e"
      by simp_all
    from inv(3) lab have "set (colaMissedLabels e) \<subseteq> ev_label ` set COLA_EVENTS"
      by (rule subset_trans)
    with inv(1,2,4) len show ?thesis
      by simp
  qed
  with e(1) n show ?thesis by blast
qed


subsection \<open>The example data evaluated\<close>

lemma ex_pay: "calculate_snapshot_pay (ex_snap d src r) = (if r > 0 then r else 0)"
  by (simp add: calculate_snapshot_pay_def pay_step_def calc_job_rate_and_missing_def ex_snap_def
      ex_job_def strip_def Let_def)

lemma ex_snap_fields:
  "snap_date (ex_snap d src r) = Some d" "snap_source (ex_snap d src r) = Some src"
  "snap_jobs (ex_snap d src r) = [ex_job r]"
  by (simp_all add: ex_snap_def)

lemma ex_sorted_ann:
  "sorted_timeline ann =
     [ex_snap ''2024-03-01'' ''Classified'' 1000, ex_snap ''2024-05-01'' ''Classified'' 1065]"
  by (simp add: sorted_timeline_def sort_timeline_def date_key_def ann_def ex_snap_def)

lemma ex_sorted_bob:
  "sorted_timeline bob = [ex_snap ''2024-05-01'' ''Unclassified Staff'' 2000]"
  by (simp add: sorted_timeline_def sort_timeline_def bob_def)

lemma ex_pays_ann:
  "employee_pays ann = [''2024-03-01'' \<mapsto> 1000, ''2024-05-01'' \<mapsto> 1065]"
  by (simp add: employee_pays_def ex_sorted_ann record_pay_def ex_pay ex_snap_fields)

lemma ex_unclass: "last_unclass bob" "\<not> last_unclass ann"
  by (simp_all add: last_unclass_def ex_sorted_ann ex_sorted_bob is_unclass_source_def lower_def
      lower_char_def ex_snap_fields)

lemma ex_distinct: "distinct (map fst ex_data)"
  by (simp add: ex_data_def)

lemma ex_observed: "sort (remdups (observed_dates ex_data)) = [''2024-03-01'', ''2024-05-01'']"
  by (simp add: observed_dates_def all_snapshots_def ex_data_def ex_sorted_ann ex_sorted_bob
      snapshot_date_list_def observed_date_def ex_snap_fields)

lemma ex_pairs:
  "out_cola_pairs (main ex_data) =
     [\<lparr>pair_label = ''6.5% COLA'', pair_effective = ''2024-04-01'', pair_pct = 6.5,
       beforeDate = Some ''2024-03-01'', afterDate = Some ''2024-05-01''\<rparr>,
      \<lparr>pair_label = ''2% COLA'', pair_effective = ''2024-11-01'', pair_pct = 2,
       beforeDate = Some ''2024-05-01'', afterDate = None\<rparr>,
      \<lparr>pair_label = ''3.5% COLA'', pair_effective = ''2025-06-01'', pair_pct = 3.5,
       beforeDate = Some ''2024-05-01'', afterDate = None\<rparr>]"
  by (simp add: main_cola_pairs ex_observed build_cola_pairs_def build_pair_def COLA_EVENTS_def)

lemma ex_fold_ann:
  "fold (cola_check (employee_pays ann)) (out_cola_pairs (main ex_data)) (False, 0, []) =
     (True, 1, [])"
  by (simp add: ex_pairs ex_pays_ann cola_check_def pay_at_def COLA_TOLERANCE_PCT_def Let_def)

theorem cola_result_spec_witness:
  "(\<exists>e. out_index (main ex_data) ''Bob'' = Some e \<and>
        colaReceived e \<and> colaChecked e = 0 \<and> colaMissedLabels e = [] \<and> \<not> colaMissing e) \<and>
   (\<exists>e. out_index (main ex_data) ''Ann'' = Some e \<and>
        colaReceived e \<and> colaChecked e = 1 \<and> colaMissedLabels e = [] \<and> \<not> colaMissing e)"
proof -
  have b: "(''Bob'', bob) \<in> set ex_data" and a: "(''Ann'', ann) \<in> set ex_data"
    by (simp_all add: ex_data_def)
  from cola_result_spec [OF ex_distinct b] ex_unclass(1)
  have 1: "\<exists>e. out_index (main ex_data) ''Bob'' = Some e \<and>
        colaReceived e \<and> colaChecked e = 0 \<and> colaMissedLabels e = [] \<and> \<not> colaMissing e"
    by blast
  from cola_result_spec [OF ex_distinct a] ex_unclass(2) ex_fold_ann
  have 2: "\<exists>e. out_index (main ex_data) ''Ann'' = Some e \<and>
        colaReceived e \<and> colaChecked e = 1 \<and> colaMissedLabels e = [] \<and> \<not> colaMissing e"
    by auto
  from 1 2 show ?thesis ..
qed

theorem cola_bookkeeping_witness:
  "\<exists>e. out_index (main ex_data) ''Ann'' = Some e \<and>
       length (colaMissedLabels e) \<le> colaChecked e \<and> colaChecked e \<le> 3 \<and>
       set (colaMissedLabels e) \<subseteq> {''6.5% COLA'', ''2% COLA'', ''3.5% COLA''} \<and>
       (colaReceived e \<or> length (colaMissedLabels e) = colaChecked e)"
proof -
  have a: "(''Ann'', ann) \<in> set ex_data"
    by (simp add: ex_data_def)
  have l: "ev_label ` set COLA_EVENTS = {''6.5% COLA'', ''2% COLA'', ''3.5% COLA''}"
    by (simp add: COLA_EVENTS_def)
  from cola_bookkeeping [OF ex_distinct a] show ?thesis
    unfolding l by auto
qed


subsection \<open>TimelineWalker: exclusion tracking\<close>

lemma local_step_exclusion:
  "prev_is_unclass (local_step l s w) = Some (unclass_snap s)"
  "started_classified (local_step l s w) =
     (case started_classified w of None \<Rightarrow> Some (\<not> unclass_snap s) | Some st \<Rightarrow> Some st)"
  "was_excluded (local_step l s w) =
     (was_excluded w \<or>
      (prev_is_unclass w = Some False \<and> unclass_snap s \<and>
       (case started_classified w of None \<Rightarrow> \<not> unclass_snap s | Some st \<Rightarrow> st)))"
  "first_exclusion_date (local_step l s w) =
     (if prev_is_unclass w = Some False \<and> unclass_snap s \<and>
         (case started_classified w of None \<Rightarrow> \<not> unclass_snap s | Some st \<Rightarrow> st) \<and>
         \<not> truthy (first_exclusion_date w)
      then snap_date s else first_exclusion_date w)"
  by (auto simp: local_step_def classify_step_def last_snapshot_step_def unclass_snap_def Let_def
      split: option.splits)

lemma pick_date_Cons:
  "pick_date fed (s # ts) = pick_date (if truthy fed then fed else snap_date s) ts"
  by (simp add: pick_date_def)

lemma pick_date_Nil: "pick_date fed [] = fed"
  by (simp add: pick_date_def)

lemma walk_local_exclusion:
  assumes "prev_is_unclass w = Some pr" and "started_classified w = Some st"
  shows "was_excluded (walk_local ss w) =
           (was_excluded w \<or> (st \<and> transitions_from pr ss \<noteq> [])) \<and>
         first_exclusion_date (walk_local ss w) =
           (if st then pick_date (first_exclusion_date w) (transitions_from pr ss)
            else first_exclusion_date w)"
  using assms
proof (induction ss arbitrary: w pr)
  case Nil
  then show ?case by (simp add: pick_date_Nil)
next
  case (Cons s ss)
  let ?w = "local_step (ss = []) s w"
  have p: "prev_is_unclass ?w = Some (unclass_snap s)" and st: "started_classified ?w = Some st"
    using Cons.prems by (simp_all add: local_step_exclusion)
  from Cons.IH [OF p st] show ?case
    using Cons.prems
    by (auto simp: local_step_exclusion pick_date_Cons pick_date_Nil)
qed

lemma pick_date_reported:
  "pick_date fed ts =
     (if truthy fed then fed
      else (case filter (\<lambda>s. truthy (snap_date s)) ts of
              s # _ \<Rightarrow> snap_date s
            | [] \<Rightarrow> (case rev ts of [] \<Rightarrow> fed | s # _ \<Rightarrow> snap_date s)))"
proof (induction ts arbitrary: fed)
  case Nil
  then show ?case by (simp add: pick_date_Nil)
next
  case (Cons s ts)
  show ?case
    by (simp add: pick_date_Cons Cons.IH split: list.splits)
qed

lemma person_walk_exclusion:
  "was_excluded (person_walk p) =
     (first_classified p \<and> exclusion_transitions (sorted_timeline p) \<noteq> [])"
  "was_excluded (person_walk p) \<Longrightarrow>
     first_exclusion_date (person_walk p) = reported_date (exclusion_transitions (sorted_timeline p))"
proof -
  show "was_excluded (person_walk p) =
     (first_classified p \<and> exclusion_transitions (sorted_timeline p) \<noteq> [])"
  proof (cases "sorted_timeline p")
    case Nil
    then show ?thesis
      by (simp add: person_walk_def first_classified_def init_walk_def)
  next
    case (Cons s ss)
    let ?w = "local_step (ss = []) s init_walk"
    have p: "prev_is_unclass ?w = Some (unclass_snap s)"
      and st: "started_classified ?w = Some (\<not> unclass_snap s)"
      and we: "was_excluded ?w = False"
      by (simp_all add: local_step_exclusion init_walk_def)
    from walk_local_exclusion [OF p st, of ss] show ?thesis
      by (simp add: person_walk_def Cons first_classified_def exclusion_transitions_def we)
  qed
next
  assume ex: "was_excluded (person_walk p)"
  show "first_exclusion_date (person_walk p) =
          reported_date (exclusion_transitions (sorted_timeline p))"
  proof (cases "sorted_timeline p")
    case Nil
    with ex show ?thesis
      by (simp add: person_walk_def init_walk_def)
  next
    case (Cons s ss)
    let ?w = "local_step (ss = []) s init_walk"
    have p: "prev_is_unclass ?w = Some (unclass_snap s)"
      and st: "started_classified ?w = Some (\<not> unclass_snap s)"
      and we: "was_excluded ?w = False" and fe: "first_exclusion_date ?w = None"
      by (simp_all add: local_step_exclusion init_walk_def)
    from walk_local_exclusion [OF p st, of ss] ex show ?thesis
      by (auto simp: person_walk_def Cons exclusion_transitions_def we fe pick_date_reported
          reported_date_def split: list.splits)
  qed
qed

lemma cola_status_exclusion:
  "wasExcluded (cola_status pairs pays e) = wasExcluded e"
  "exclusionDate (cola_status pairs pays e) = exclusionDate e"
  by (simp_all add: cola_status_def split: prod.splits)

lemma first_entry_exclusion:
  "wasExcluded (first_entry p) = (was_excluded (person_walk p) \<and> last_unclass p)"
  "exclusionDate (first_entry p) =
     (if was_excluded (person_walk p) \<and> last_unclass p
      then first_exclusion_date (person_walk p) else Some [])"
  by (simp_all add: first_entry_def make_entry_def last_unclass_def person_walk_def init_walk_def
      Let_def)

lemma main_entry_exclusion:
  assumes "distinct (map fst data)" and "(name, p) \<in> set data"
  shows "\<exists>e. out_index (main data) name = Some e \<and>
           wasExcluded e =
             (last_unclass p \<and> first_classified p \<and>
              exclusion_transitions (sorted_timeline p) \<noteq> []) \<and>
           exclusionDate e =
             (if wasExcluded e then reported_date (exclusion_transitions (sorted_timeline p))
              else Some [])"
  using person_walk_exclusion [of p]
  by (auto simp: main_index [OF assms] cola_status_exclusion first_entry_exclusion)

subsection \<open>Exclusion gating\<close>

lemmas unclass_eval = unclass_snap_def is_unclass_source_def lower_def lower_char_def

lemma ex_sorted_carl:
  "sorted_timeline carl =
     [\<lparr>snap_date = None, snap_source = Some ''Classified'', snap_jobs = []\<rparr>,
      \<lparr>snap_date = None, snap_source = Some ''Unclassified'', snap_jobs = []\<rparr>,
      \<lparr>snap_date = Some ''2024-01-01'', snap_source = Some ''Classified'', snap_jobs = []\<rparr>,
      \<lparr>snap_date = Some ''2024-02-01'', snap_source = Some ''Unclassified'', snap_jobs = []\<rparr>]"
  by (simp add: sorted_timeline_def sort_timeline_def date_key_def carl_def)

lemma ex_sorted_dana:
  "sorted_timeline dana =
     [\<lparr>snap_date = Some ''2024-01-01'', snap_source = Some ''Classified'', snap_jobs = []\<rparr>,
      \<lparr>snap_date = Some ''2024-02-01'', snap_source = Some ''Unclassified'', snap_jobs = []\<rparr>,
      \<lparr>snap_date = Some ''2024-03-01'', snap_source = Some ''Classified'', snap_jobs = []\<rparr>]"
  by (simp add: sorted_timeline_def sort_timeline_def date_key_def dana_def)

lemma ex_carl:
  "last_unclass carl" "first_classified carl"
  "exclusion_transitions (sorted_timeline carl) =
     [\<lparr>snap_date = None, snap_source = Some ''Unclassified'', snap_jobs = []\<rparr>,
      \<lparr>snap_date = Some ''2024-02-01'', snap_source = Some ''Unclassified'', snap_jobs = []\<rparr>]"
  by (simp_all add: last_unclass_def first_classified_def exclusion_transitions_def ex_sorted_carl
      unclass_eval)

lemma ex_dana: "\<not> last_unclass dana"
  by (simp add: last_unclass_def ex_sorted_dana unclass_eval)

text \<open>
  Claim C5, as amended. The reported \<^verbatim>\<open>wasExcluded\<close> is true exactly when the last
  snapshot is unclassified, the first snapshot was classified and some snapshot goes from
  classified to unclassified; otherwise it is false and the exclusion date is the empty
  string, so that a timeline ending classified, unclassified, classified reports nothing.
  When reported, the exclusion date is the date of the first such transition that carries
  a non-empty date, and the (absent or empty) date of the last such transition when none
  does.
\<close>

theorem exclusion_gating:
  assumes "distinct (map fst data)" and "(name, p) \<in> set data"
  shows "\<exists>e. out_index (main data) name = Some e \<and>
           wasExcluded e =
             (last_unclass p \<and> first_classified p \<and>
              exclusion_transitions (sorted_timeline p) \<noteq> []) \<and>
           (\<not> wasExcluded e \<longrightarrow> exclusionDate e = Some []) \<and>
           (\<not> last_unclass p \<longrightarrow> \<not> wasExcluded e \<and> exclusionDate e = Some []) \<and>
           (wasExcluded e \<longrightarrow>
              exclusionDate e = reported_date (exclusion_transitions (sorted_timeline p)))"
proof -
  from main_entry_exclusion [OF assms] obtain e where e: "out_index (main data) name = Some e"
    "wasExcluded e =
       (last_unclass p \<and> first_classified p \<and> exclusion_transitions (sorted_timeline p) \<noteq> [])"
    "exclusionDate e =
       (if wasExcluded e then reported_date (exclusion_transitions (sorted_timeline p))
        else Some [])"
    by blast
  have "\<not> wasExcluded e \<longrightarrow> exclusionDate e = Some []"
    using e(3) by simp
  moreover have "\<not> last_unclass p \<longrightarrow> \<not> wasExcluded e \<and> exclusionDate e = Some []"
    using e(2,3) by simp
  moreover have "wasExcluded e \<longrightarrow>
      exclusionDate e = reported_date (exclusion_transitions (sorted_timeline p))"
    using e(3) by simp
  ultimately show ?thesis
    using e(1,2) by blast
qed

theorem exclusion_gating_witness:
  "(\<exists>e. out_index (main [(''Carl'', carl)]) ''Carl'' = Some e \<and>
        wasExcluded e \<and> exclusionDate e = Some ''2024-02-01'') \<and>
   (\<exists>e. out_index (main [(''Dana'', dana)]) ''Dana'' = Some e \<and>
        \<not> wasExcluded e \<and> exclusionDate e = Some [])"
proof -
  have c: "distinct (map fst [(''Carl'', carl)])" "(''Carl'', carl) \<in> set [(''Carl'', carl)]"
    and d: "distinct (map fst [(''Dana'', dana)])" "(''Dana'', dana) \<in> set [(''Dana'', dana)]"
    by simp_all
  have r: "reported_date (exclusion_transitions (sorted_timeline carl)) = Some ''2024-02-01''"
    by (simp add: ex_carl(3) reported_date_def)
  from exclusion_gating [OF c] ex_carl r
  have 1: "\<exists>e. out_index (main [(''Carl'', carl)]) ''Carl'' = Some e \<and>
        wasExcluded e \<and> exclusionDate e = Some ''2024-02-01''"
    by auto
  from exclusion_gating [OF d] ex_dana
  have 2: "\<exists>e. out_index (main [(''Dana'', dana)]) ''Dana'' = Some e \<and>
        \<not> wasExcluded e \<and> exclusionDate e = Some []"
    by auto
  from 1 2 show ?thesis ..
qed

text \<open>
  The claim as stated fails: the first classified to unclassified transition of this
  employee is at a snapshot without a date, and the reported exclusion date is that of
  the second transition.
\<close>

theorem exclusion_date_counterexample:
  "\<exists>e. out_index (main [(''Carl'', carl)]) ''Carl'' = Some e \<and> wasExcluded e \<and>
       first_transition_date (exclusion_transitions (sorted_timeline carl)) = None \<and>
       exclusionDate e = Some ''2024-02-01'' \<and>
       exclusionDate e \<noteq> first_transition_date (exclusion_transitions (sorted_timeline carl))"
proof -
  have c: "distinct (map fst [(''Carl'', carl)])" "(''Carl'', carl) \<in> set [(''Carl'', carl)]"
    by simp_all
  have r: "reported_date (exclusion_transitions (sorted_timeline carl)) = Some ''2024-02-01''"
    by (simp add: ex_carl(3) reported_date_def)
  have f: "first_transition_date (exclusion_transitions (sorted_timeline carl)) = None"
    by (simp add: ex_carl(3) first_transition_date_def)
  from main_entry_exclusion [OF c] ex_carl r f show ?thesis
    by auto
qed

subsection \<open>The loaded data after the run\<close>

text \<open>
  Claim C9, as amended. The run sorts the timeline of every employee in place, stably and
  ascending by date with a missing date as the empty string: after the run the timeline
  holds the same snapshots, each unchanged, in sorted order, and the employee's record is
  unchanged whenever the timeline was already sorted by date when loaded.
\<close>

theorem run_sorts_timelines:
  "out_data (main data) = map (\<lambda>(name, q). (name, sorted_person q)) data \<and>
   timeline (sorted_person p) = sort_key date_key (timeline p) \<and>
   mset (timeline (sorted_person p)) = mset (timeline p) \<and>
   (sorted (map date_key (timeline p)) \<longrightarrow> sorted_person p = p)"
  by (simp add: main_fields first_pass_data sorted_person_def sorted_timeline_def
      sort_timeline_def sort_key_id_if_sorted)

theorem run_sorts_timelines_witness:
  "out_data (main ex_data) =
     [(''Ann'', \<lparr>timeline = [ex_snap ''2024-03-01'' ''Classified'' 1000,
                             ex_snap ''2024-05-01'' ''Classified'' 1065]\<rparr>),
      (''Bob'', bob)] \<and>
   sorted_person bob = bob"
proof -
  have s: "sorted (map date_key (timeline bob))"
    by (simp add: bob_def)
  have a: "sorted_person ann = \<lparr>timeline = [ex_snap ''2024-03-01'' ''Classified'' 1000,
                             ex_snap ''2024-05-01'' ''Classified'' 1065]\<rparr>"
    by (simp add: sorted_person_def ex_sorted_ann)
  from run_sorts_timelines [of ex_data bob] s a show ?thesis
    by (simp add: ex_data_def)
qed

text \<open>The claim as stated fails: the run reorders a timeline that is loaded out of order.\<close>

theorem timeline_unchanged_counterexample:
  "timeline ann = [ex_snap ''2024-05-01'' ''Classified'' 1065,
                   ex_snap ''2024-03-01'' ''Classified'' 1000] \<and>
   map (timeline \<circ> snd) (out_data (main ex_data)) =
     [[ex_snap ''2024-03-01'' ''Classified'' 1000, ex_snap ''2024-05-01'' ''Classified'' 1065],
      timeline bob] \<and>
   out_data (main ex_data) \<noteq> ex_data"
proof -
  have a: "timeline (sorted_person ann) =
      [ex_snap ''2024-03-01'' ''Classified'' 1000, ex_snap ''2024-05-01'' ''Classified'' 1065]"
    by (simp add: sorted_person_def ex_sorted_ann)
  have b: "timeline (sorted_person bob) = timeline bob"
    by (simp add: sorted_person_def ex_sorted_bob) (simp add: bob_def)
  have o: "out_data (main ex_data) = [(''Ann'', sorted_person ann), (''Bob'', sorted_person bob)]"
    by (simp only: main_fields first_pass_data) (simp add: ex_data_def)
  have n: "sorted_person ann \<noteq> ann"
    using a by (auto simp: ann_def ex_snap_def)
  have t: "timeline ann = [ex_snap ''2024-05-01'' ''Classified'' 1065,
                   ex_snap ''2024-03-01'' ''Classified'' 1000]"
    by (simp add: ann_def)
  have m: "map (timeline \<circ> snd) (out_data (main ex_data)) =
     [[ex_snap ''2024-03-01'' ''Classified'' 1000, ex_snap ''2024-05-01'' ''Classified'' 1065],
      timeline bob]"
    unfolding o by (simp add: a b)
  have ne: "out_data (main ex_data) \<noteq> ex_data"
  proof
    assume "out_data (main ex_data) = ex_data"
    from this [unfolded o] have "sorted_person ann = ann"
      by (simp add: ex_data_def)
    with n show False ..
  qed
  from t m ne show ?thesis
    by (intro conjI)
qed

subsection \<open>Parity of the fused pass and the separate passes\<close>

lemma peer_key_nonempty: "peer_key j \<noteq> []"
  by (simp add: peer_key_def)

lemma global_step_stats:
  "stats_map (global_step s g) = fold stats_row_step (snapshot_row s) (stats_map g)"
  by (simp add: global_step_def snapshot_row_def stats_row_step_def Let_def split: option.splits)

lemma global_step_peers:
  "peer_buckets (global_step s g) = fold peers_row_step (snapshot_row s) (peer_buckets g)"
  by (simp add: global_step_def snapshot_row_def peers_row_step_def peer_key_nonempty Let_def
      split: option.splits list.splits)

lemma fold_global_step_stats:
  "stats_map (fold global_step ss g) =
     fold stats_row_step (concat (map snapshot_row ss)) (stats_map g)"
  by (induction ss arbitrary: g) (simp_all add: global_step_stats)

lemma fold_global_step_peers:
  "peer_buckets (fold global_step ss g) =
     fold peers_row_step (concat (map snapshot_row ss)) (peer_buckets g)"
  by (induction ss arbitrary: g) (simp_all add: global_step_peers)

lemma load_rows_all_snapshots: "load_rows data = concat (map snapshot_row (all_snapshots data))"
  by (induction data) (auto simp: load_rows_def all_snapshots_def sorted_timeline_def)

lemma fused_rows_split:
  "fold (\<lambda>r (sm, pb). (stats_row_step r sm, peers_row_step r pb)) rows (sm, pb) =
     (fold stats_row_step rows sm, fold peers_row_step rows pb)"
  by (induction rows arbitrary: sm pb) simp_all

lemma peer_bucket_counts_sort: "peer_bucket_counts (sort_buckets pb) = peer_bucket_counts pb"
  by (auto simp: peer_bucket_counts_def sort_buckets_def fun_eq_iff option.map_comp comp_def
      split: option.splits)

lemma first_pass_stats:
  "stats_map (glob (snd (first_pass data init_state))) = current_stats_only (load_rows data)"
  by (simp add: first_pass_glob fold_global_step_stats load_rows_all_snapshots
      current_stats_only_def init_state_def init_globals_def)

lemma first_pass_peers:
  "peer_buckets (glob (snd (first_pass data init_state))) = cohort_only_pass (load_rows data)"
  by (simp add: first_pass_glob fold_global_step_peers load_rows_all_snapshots
      cohort_only_pass_def init_state_def init_globals_def)

text \<open>
  Claim C6. The fused pass of the run, which builds the stats map and the peer buckets
  together, gives the stats map of the separate pass that folds only the stats of the
  rows, and buckets whose lengths, for every date and key, are those of the separate
  cohort-only pass; the same holds of the fused pass over the rows.
\<close>

theorem fused_pass_parity:
  "out_stats_map (main data) = current_stats_only (load_rows data) \<and>
   peer_bucket_counts (out_peer_buckets (main data)) =
     peer_bucket_counts (cohort_only_pass (load_rows data)) \<and>
   fst (current_stats_and_peers rows) = current_stats_only rows \<and>
   peer_bucket_counts (snd (current_stats_and_peers rows)) =
     peer_bucket_counts (cohort_only_pass rows)"
  by (simp add: main_fields first_pass_stats first_pass_peers peer_bucket_counts_sort
      current_stats_and_peers_def fused_rows_split current_stats_only_def cohort_only_pass_def)

subsection \<open>PeerRankEngine: bisection\<close>










subsection \<open>PeerRankEngine: cohorts and percentiles\<close>




lemma cohort_pays_append:
  "cohort_pays (ss @ ts) d key = cohort_pays ss d key @ cohort_pays ts d key"
  by (simp add: cohort_pays_def)
















subsection \<open>The peer ranks of the example data\<close>








end
